theory Spec2Isabelle
  imports Main "HOL-Library.Word"
begin

section \<open>go-clamd: the client of clamd.go\<close>

text \<open>
  The development follows \<^verbatim>\<open>clamd.go\<close>. The connection type \<^verbatim>\<open>CLAMDConn\<close> with its
  methods (\<^verbatim>\<open>sendCommand\<close>, \<^verbatim>\<open>sendChunk\<close>, \<^verbatim>\<open>sendEOF\<close>, \<^verbatim>\<open>readResponse\<close>, \<^verbatim>\<open>Close\<close>),
  the two dial functions, the constant \<^verbatim>\<open>CHUNK_SIZE\<close> and the library function
  \<^verbatim>\<open>url.Parse\<close> are not part of that file: they are parameters of the model. Calls to
  them are recorded, in program order, in a list of events, so that what the client
  asks of its collaborators can be stated. The timing diagnostics
  (\<^verbatim>\<open>time.Now\<close>, \<^verbatim>\<open>fmt.Printf\<close>, \<^verbatim>\<open>rand.Intn\<close>) influence neither control flow nor results
  and are left out.
\<close>

subsection \<open>Data\<close>

type_synonym byte = "8 word"

text \<open>A Go \<^verbatim>\<open>error\<close> value; \<^verbatim>\<open>errors.New msg\<close> is \<open>Error msg\<close>. The nil error is \<open>None\<close>
  of \<open>error option\<close>.\<close>

datatype error = Error string

text \<open>Run-time panics of the Go code.\<close>

datatype panic =
    NilDereference
  | SliceBounds nat nat  \<comment> \<open>slice bounds out of range: index, length (or capacity)\<close>

text \<open>What a call does: it returns, it panics, or it never returns (a receive on a nil
  channel, a read that blocks for ever).\<close>

datatype 'a outcome = Return 'a | Panic panic | Hang

record Clamd =
  address :: string

record Stats =
  Pools :: string
  State :: string
  Threads :: string
  Memstats :: string
  Queue :: string

record ScanResult =
  Raw :: string
  Description :: string
  Path :: string
  Hash :: string
  Size :: int
  Status :: string

text \<open>The fields of \<^verbatim>\<open>url.URL\<close> that \<^verbatim>\<open>newConnection\<close> reads (\<^verbatim>\<open>u.Path\<close> is \<open>UrlPath\<close>).\<close>

record URL =
  Scheme :: string
  Host :: string
  UrlPath :: string

text \<open>A \<^verbatim>\<open>chan *ScanResult\<close>, seen from the receiving side: \<open>None\<close> is the nil channel;
  \<open>Some ps\<close> is a channel on which the pointers \<open>ps\<close> are delivered in this order
  and which is then closed. A pointer is \<open>None\<close> when nil.\<close>

type_synonym ResultChan = "ScanResult option list option"

text \<open>A connection, given by what its methods answer. The result of \<open>sendChunk\<close> may
  depend on how many chunks were written before, which covers a connection that is
  closed under the writer at any moment.\<close>

record CLAMDConn =
  sendCommand :: "string \<Rightarrow> error option"
  sendChunk :: "nat \<Rightarrow> byte list \<Rightarrow> error option"
  sendEOF :: "error option"
  readResponse :: "ResultChan \<times> error option"

record world =
  url_Parse :: "string \<Rightarrow> error + URL"
  newCLAMDTcpConn :: "string \<Rightarrow> error + CLAMDConn"
  newCLAMDUnixConn :: "string \<Rightarrow> error + CLAMDConn"
  CHUNK_SIZE :: nat

datatype event =
    UrlParse string
  | DialTcp string
  | DialUnix string
  | SendCommand string
  | SendChunk "byte list"
  | SendEOF
  | ReadResponse
  | GoAbortWatcher  \<comment> \<open>\<^verbatim>\<open>go func\<close>: wait until \<^verbatim>\<open>abort\<close> is closed, then \<^verbatim>\<open>conn.Close()\<close>\<close>
  | GoWaitClose  \<comment> \<open>\<^verbatim>\<open>go func\<close>: \<^verbatim>\<open>wg.Wait()\<close>, then \<^verbatim>\<open>conn.Close()\<close>\<close>

subsection \<open>Construction and connection\<close>

definition NewClamd :: "string \<Rightarrow> Clamd" where
  "NewClamd a = \<lparr>address = a\<rparr>"

definition Clamd_newConnection :: "world \<Rightarrow> Clamd \<Rightarrow> event list \<times> (error + CLAMDConn)" where
  "Clamd_newConnection w c =
     (case url_Parse w (address c) of
        Inl err \<Rightarrow> ([UrlParse (address c)], Inl err)
      | Inr u \<Rightarrow>
          if Scheme u = ''tcp'' then
            ([UrlParse (address c), DialTcp (Host u)], newCLAMDTcpConn w (Host u))
          else if Scheme u = ''unix'' then
            ([UrlParse (address c), DialUnix (UrlPath u)], newCLAMDUnixConn w (UrlPath u))
          else
            ([UrlParse (address c), DialUnix (address c)], newCLAMDUnixConn w (address c)))"

subsection \<open>Library functions used by the client\<close>

text \<open>\<^verbatim>\<open>strings.HasPrefix(s, prefix)\<close>: \<^verbatim>\<open>len(s) >= len(prefix) && s[:len(prefix)] == prefix\<close>.\<close>

definition strings_HasPrefix :: "string \<Rightarrow> string \<Rightarrow> bool" where
  "strings_HasPrefix s p = (length p \<le> length s \<and> take (length p) s = p)"

text \<open>\<^verbatim>\<open>strings.Trim(s, cutset)\<close> removes the leading and trailing characters that occur
  in the cutset (the only cutset used is a single space, one byte).\<close>

definition strings_Trim :: "string \<Rightarrow> string \<Rightarrow> string" where
  "strings_Trim s cutset =
     rev (dropWhile (\<lambda>x. x \<in> set cutset) (rev (dropWhile (\<lambda>x. x \<in> set cutset) s)))"

definition errors_New :: "string \<Rightarrow> error" where
  "errors_New msg = Error msg"

fun digits :: "nat \<Rightarrow> string" where
  "digits n =
     (if n < 10 then [''0123456789'' ! n]
      else digits (n div 10) @ [''0123456789'' ! (n mod 10)])"

declare digits.simps [simp del]

definition fmt_int :: "int \<Rightarrow> string" where
  "fmt_int i = (if i < 0 then CHR ''-'' # digits (nat (- i)) else digits (nat i))"

text \<open>The verb \<^verbatim>\<open>%v\<close> of package \<^verbatim>\<open>fmt\<close> applied to a non-nil \<^verbatim>\<open>*ScanResult\<close>: an ampersand,
  then the fields in declaration order, separated by spaces, in braces.\<close>

definition fmt_v :: "ScanResult \<Rightarrow> string" where
  "fmt_v s =
     ''&{'' @ Raw s @ '' '' @ Description s @ '' '' @ Path s @ '' '' @ Hash s @ '' ''
       @ fmt_int (Size s) @ '' '' @ Status s @ ''}''"

text \<open>The receive \<^verbatim>\<open><-ch\<close>: it blocks for ever on a nil channel, and yields the zero
  value, a nil pointer, on a channel that is closed and empty.\<close>

definition recv :: "ResultChan \<Rightarrow> ScanResult option outcome" where
  "recv ch =
     (case ch of
        None \<Rightarrow> Hang
      | Some [] \<Rightarrow> Return None
      | Some (p # ps) \<Rightarrow> Return p)"

subsection \<open>Commands with a textual reply\<close>

definition Clamd_simpleCommand ::
    "world \<Rightarrow> Clamd \<Rightarrow> string \<Rightarrow> event list \<times> ResultChan \<times> error option" where
  "Clamd_simpleCommand w c command =
     (case Clamd_newConnection w c of
        (tr, Inl err) \<Rightarrow> (tr, None, Some err)
      | (tr, Inr conn) \<Rightarrow>
          (case sendCommand conn command of
             Some err \<Rightarrow> (tr @ [SendCommand command], None, Some err)
           | None \<Rightarrow>
               (tr @ [SendCommand command, ReadResponse, GoWaitClose],
                fst (readResponse conn), snd (readResponse conn))))"

text \<open>\<^verbatim>\<open>Ping\<close> and \<^verbatim>\<open>Reload\<close> take one value from the channel and read its field \<^verbatim>\<open>Raw\<close>;
  the value is a nil pointer when the channel is closed and empty.\<close>

definition Clamd_Ping :: "world \<Rightarrow> Clamd \<Rightarrow> event list \<times> error option outcome" where
  "Clamd_Ping w c =
     (let (tr, ch, err) = Clamd_simpleCommand w c ''PING'' in
        if err \<noteq> None then (tr, Return err)
        else
          (tr, case recv ch of
                 Hang \<Rightarrow> Hang
               | Panic p \<Rightarrow> Panic p
               | Return None \<Rightarrow> Panic NilDereference
               | Return (Some s) \<Rightarrow>
                   if Raw s = ''PONG'' then Return None
                   else Return (Some (errors_New (''Invalid response, got '' @ fmt_v s @ ''.'')))))"

definition Clamd_Version ::
    "world \<Rightarrow> Clamd \<Rightarrow> event list \<times> (ScanResult option \<times> error option) outcome" where
  "Clamd_Version w c =
     (let (tr, dataArrays, err) = Clamd_simpleCommand w c ''VERSION'' in
        (tr, map_outcome (\<lambda>p. (p, err)) (recv dataArrays)))"

definition Clamd_Reload :: "world \<Rightarrow> Clamd \<Rightarrow> event list \<times> error option outcome" where
  "Clamd_Reload w c =
     (let (tr, ch, err) = Clamd_simpleCommand w c ''RELOAD'' in
        if err \<noteq> None then (tr, Return err)
        else
          (tr, case recv ch of
                 Hang \<Rightarrow> Hang
               | Panic p \<Rightarrow> Panic p
               | Return None \<Rightarrow> Panic NilDereference
               | Return (Some s) \<Rightarrow>
                   if Raw s = ''RELOADING'' then Return None
                   else Return (Some (errors_New (''Invalid response, got '' @ fmt_v s @ ''.'')))))"

definition Clamd_Shutdown :: "world \<Rightarrow> Clamd \<Rightarrow> event list \<times> error option outcome" where
  "Clamd_Shutdown w c =
     (let (tr, ch, err) = Clamd_simpleCommand w c ''SHUTDOWN'' in (tr, Return err))"

text \<open>The five file scans end with \<^verbatim>\<open>return <-ch, err\<close>: the receive is evaluated whatever
  \<^verbatim>\<open>err\<close> is, and the pointer received is returned with \<^verbatim>\<open>err\<close>.\<close>

definition Clamd_ScanFile ::
    "world \<Rightarrow> Clamd \<Rightarrow> string \<Rightarrow> event list \<times> (ScanResult option \<times> error option) outcome" where
  "Clamd_ScanFile w c path =
     (let command = ''SCAN '' @ path;
          (tr, ch, err) = Clamd_simpleCommand w c command
      in (tr, map_outcome (\<lambda>p. (p, err)) (recv ch)))"

definition Clamd_RawScanFile ::
    "world \<Rightarrow> Clamd \<Rightarrow> string \<Rightarrow> event list \<times> (ScanResult option \<times> error option) outcome" where
  "Clamd_RawScanFile w c path =
     (let command = ''RAWSCAN '' @ path;
          (tr, ch, err) = Clamd_simpleCommand w c command
      in (tr, map_outcome (\<lambda>p. (p, err)) (recv ch)))"

definition Clamd_MultiScanFile ::
    "world \<Rightarrow> Clamd \<Rightarrow> string \<Rightarrow> event list \<times> (ScanResult option \<times> error option) outcome" where
  "Clamd_MultiScanFile w c path =
     (let command = ''MULTISCAN '' @ path;
          (tr, ch, err) = Clamd_simpleCommand w c command
      in (tr, map_outcome (\<lambda>p. (p, err)) (recv ch)))"

definition Clamd_ContScanFile ::
    "world \<Rightarrow> Clamd \<Rightarrow> string \<Rightarrow> event list \<times> (ScanResult option \<times> error option) outcome" where
  "Clamd_ContScanFile w c path =
     (let command = ''CONTSCAN '' @ path;
          (tr, ch, err) = Clamd_simpleCommand w c command
      in (tr, map_outcome (\<lambda>p. (p, err)) (recv ch)))"

definition Clamd_AllMatchScanFile ::
    "world \<Rightarrow> Clamd \<Rightarrow> string \<Rightarrow> event list \<times> (ScanResult option \<times> error option) outcome" where
  "Clamd_AllMatchScanFile w c path =
     (let command = ''ALLMATCHSCAN '' @ path;
          (tr, ch, err) = Clamd_simpleCommand w c command
      in (tr, map_outcome (\<lambda>p. (p, err)) (recv ch)))"

subsection \<open>Stats\<close>

text \<open>The loop \<^verbatim>\<open>for s := range ch\<close> of \<^verbatim>\<open>Stats\<close>, over the values the channel delivers.
  The slice \<^verbatim>\<open>s.Raw[6:]\<close> panics when the string has fewer than six bytes.\<close>

fun Stats_range :: "Stats \<Rightarrow> ScanResult option list \<Rightarrow> (Stats option \<times> error option) outcome" where
  "Stats_range stats [] = Return (Some stats, None)"
| "Stats_range stats (None # ps) = Panic NilDereference"
| "Stats_range stats (Some s # ps) =
     (if strings_HasPrefix (Raw s) ''POOLS'' then
        (if length (Raw s) < 6 then Panic (SliceBounds 6 (length (Raw s)))
         else Stats_range (stats\<lparr>Pools := strings_Trim (drop 6 (Raw s)) '' ''\<rparr>) ps)
      else if strings_HasPrefix (Raw s) ''STATE'' then Stats_range (stats\<lparr>State := Raw s\<rparr>) ps
      else if strings_HasPrefix (Raw s) ''THREADS'' then Stats_range (stats\<lparr>Threads := Raw s\<rparr>) ps
      else if strings_HasPrefix (Raw s) ''QUEUE'' then Stats_range (stats\<lparr>Queue := Raw s\<rparr>) ps
      else if strings_HasPrefix (Raw s) ''MEMSTATS'' then
        Stats_range (stats\<lparr>Memstats := Raw s\<rparr>) ps
      else if strings_HasPrefix (Raw s) ''END'' then Stats_range stats ps
      else Return (None, Some (errors_New (''Unknown response, got '' @ fmt_v s @ ''.''))))"

definition Clamd_Stats ::
    "world \<Rightarrow> Clamd \<Rightarrow> event list \<times> (Stats option \<times> error option) outcome" where
  "Clamd_Stats w c =
     (let (tr, ch, err) = Clamd_simpleCommand w c ''STATS'' in
        if err \<noteq> None then (tr, Return (None, err))
        else
          (tr, case ch of
                 None \<Rightarrow> Hang
               | Some ps \<Rightarrow>
                   Stats_range
                     \<lparr>Pools = [], State = [], Threads = [], Memstats = [], Queue = []\<rparr> ps))"

subsection \<open>ScanStream\<close>

text \<open>The \<^verbatim>\<open>io.Reader\<close> is given by the results of its successive \<^verbatim>\<open>Read\<close> calls: the bytes
  placed in the buffer (\<^verbatim>\<open>nr\<close> is their number) and the error. After the last listed
  result the next \<^verbatim>\<open>Read\<close> blocks for ever. The slice \<^verbatim>\<open>buf[0:nr]\<close> panics when \<^verbatim>\<open>nr\<close>
  exceeds the capacity of the buffer. Inside the loop \<^verbatim>\<open>err\<close> is assigned the result of
  \<^verbatim>\<open>sendChunk\<close> whenever a chunk is sent, which replaces the error of \<^verbatim>\<open>Read\<close>.

  The channel \<^verbatim>\<open>abort\<close> is read only by the watcher started after the connection is
  open; the watcher does nothing but close the connection. For the sequential code this
  shows in the answers of the connection to later writes, which are arbitrary here, so
  \<^verbatim>\<open>abort\<close> is not an argument of the model.\<close>

type_synonym Reader = "(byte list \<times> error option) list"

fun uploadLoop :: "nat \<Rightarrow> CLAMDConn \<Rightarrow> Reader \<Rightarrow> nat \<Rightarrow> event list \<times> unit outcome" where
  "uploadLoop cs conn [] k = ([], Hang)"
| "uploadLoop cs conn ((data, rerr) # r) k =
     (if length data > 0 then
        (if length data > cs then ([], Panic (SliceBounds (length data) cs))
         else if sendChunk conn k data \<noteq> None then ([SendChunk data], Return ())
         else (case uploadLoop cs conn r (Suc k) of
                 (tr, out) \<Rightarrow> (SendChunk data # tr, out)))
      else if rerr \<noteq> None then ([], Return ())
      else uploadLoop cs conn r k)"

definition Clamd_ScanStream ::
    "world \<Rightarrow> Clamd \<Rightarrow> Reader \<Rightarrow> event list \<times> (ResultChan \<times> error option) outcome" where
  "Clamd_ScanStream w c r =
     (case Clamd_newConnection w c of
        (tr, Inl err) \<Rightarrow> (tr, Return (None, Some err))
      | (tr, Inr conn) \<Rightarrow>
          (case sendCommand conn ''INSTREAM'' of
             Some err \<Rightarrow>
               (tr @ [GoAbortWatcher, SendCommand ''INSTREAM''], Return (None, Some err))
           | None \<Rightarrow>
               (case uploadLoop (CHUNK_SIZE w) conn r 0 of
                  (up, Hang) \<Rightarrow> (tr @ [GoAbortWatcher, SendCommand ''INSTREAM''] @ up, Hang)
                | (up, Panic p) \<Rightarrow>
                    (tr @ [GoAbortWatcher, SendCommand ''INSTREAM''] @ up, Panic p)
                | (up, Return u) \<Rightarrow>
                    (case sendEOF conn of
                       Some err \<Rightarrow>
                         (tr @ [GoAbortWatcher, SendCommand ''INSTREAM''] @ up @ [SendEOF],
                          Return (None, Some err))
                     | None \<Rightarrow>
                         (tr @ [GoAbortWatcher, SendCommand ''INSTREAM''] @ up
                            @ [SendEOF, ReadResponse, GoWaitClose],
                          Return (fst (readResponse conn), None))))))"

subsection \<open>Reading the event list\<close>

fun commandsSent :: "event list \<Rightarrow> string list" where
  "commandsSent [] = []"
| "commandsSent (SendCommand cmd # tr) = cmd # commandsSent tr"
| "commandsSent (e # tr) = commandsSent tr"

fun parsesOf :: "event list \<Rightarrow> string list" where
  "parsesOf [] = []"
| "parsesOf (UrlParse a # tr) = a # parsesOf tr"
| "parsesOf (e # tr) = parsesOf tr"

subsection \<open>A sample daemon\<close>

text \<open>Concrete collaborators, used to run the client on examples: a parser that knows
  three addresses and takes every other string as a bare path, and connections that
  accept every write and deliver the given reply lines as records.\<close>

definition record_of :: "string \<Rightarrow> ScanResult" where
  "record_of raw = \<lparr>Raw = raw, Description = [], Path = [], Hash = [], Size = 0, Status = []\<rparr>"

definition replying :: "string list \<Rightarrow> CLAMDConn" where
  "replying raws =
     \<lparr>sendCommand = (\<lambda>cmd. None), sendChunk = (\<lambda>k data. None), sendEOF = None,
      readResponse = (Some (map (\<lambda>raw. Some (record_of raw)) raws), None)\<rparr>"

definition sample_Parse :: "string \<Rightarrow> error + URL" where
  "sample_Parse a =
     (if a = ''tcp://127.0.0.1:3310'' then
        Inr \<lparr>Scheme = ''tcp'', Host = ''127.0.0.1:3310'', UrlPath = []\<rparr>
      else if a = ''unix:///run/clamd.sock'' then
        Inr \<lparr>Scheme = ''unix'', Host = [], UrlPath = ''/run/clamd.sock''\<rparr>
      else if a = '':3310'' then Inl (Error ''missing protocol scheme'')
      else Inr \<lparr>Scheme = [], Host = [], UrlPath = a\<rparr>)"

definition daemon :: "string list \<Rightarrow> world" where
  "daemon raws =
     \<lparr>url_Parse = sample_Parse,
      newCLAMDTcpConn = (\<lambda>hostport. Inr (replying raws)),
      newCLAMDUnixConn = (\<lambda>path. Inr (replying raws)),
      CHUNK_SIZE = 1024\<rparr>"

definition sample_Reader :: Reader where
  "sample_Reader =
     [([1, 2, 3], None), ([], None), ([4], Some (Error ''EOF'')), ([], Some (Error ''EOF''))]"

section \<open>Properties\<close>

subsection \<open>Auxiliary facts\<close>

lemma commandsSent_append: "commandsSent (xs @ ys) = commandsSent xs @ commandsSent ys"
  by (induction xs rule: commandsSent.induct) simp_all

lemma parsesOf_append: "parsesOf (xs @ ys) = parsesOf xs @ parsesOf ys"
  by (induction xs rule: parsesOf.induct) simp_all

lemma newConnection_events:
  "commandsSent (fst (Clamd_newConnection w c)) = []"
  "parsesOf (fst (Clamd_newConnection w c)) = [address c]"
  "SendEOF \<notin> set (fst (Clamd_newConnection w c))"
  "SendChunk d \<notin> set (fst (Clamd_newConnection w c))"
  by (simp_all add: Clamd_newConnection_def split: sum.splits)

lemma simpleCommand_commands:
  "commandsSent (fst (Clamd_simpleCommand w c cmd)) =
     (case snd (Clamd_newConnection w c) of Inl err \<Rightarrow> [] | Inr conn \<Rightarrow> [cmd])"
  using newConnection_events(1) [of w c]
  by (cases "Clamd_newConnection w c")
    (simp add: Clamd_simpleCommand_def commandsSent_append split: sum.splits option.splits)

lemma simpleCommand_parses:
  "parsesOf (fst (Clamd_simpleCommand w c cmd)) = [address c]"
  using newConnection_events(2) [of w c]
  by (cases "Clamd_newConnection w c")
    (simp add: Clamd_simpleCommand_def parsesOf_append split: sum.splits option.splits)

lemma simpleCommand_reply:
  "snd (Clamd_newConnection w c) = Inr conn \<Longrightarrow> sendCommand conn cmd = None \<Longrightarrow>
   snd (Clamd_simpleCommand w c cmd) = readResponse conn"
  by (cases "Clamd_newConnection w c") (simp add: Clamd_simpleCommand_def)

lemma daemon_simpleCommand:
  "Clamd_simpleCommand (daemon raws) (NewClamd ''/run/clamd.sock'') cmd =
     ([UrlParse ''/run/clamd.sock'', DialUnix ''/run/clamd.sock'', SendCommand cmd,
       ReadResponse, GoWaitClose],
      Some (map (\<lambda>raw. Some (record_of raw)) raws), None)"
  by (simp add: Clamd_simpleCommand_def Clamd_newConnection_def NewClamd_def daemon_def
      sample_Parse_def replying_def)

text \<open>The statement \<^verbatim>\<open>return <-ch, err\<close> after a command.\<close>

lemma first_of_reply_events:
  "fst (let (tr, ch, err) = Clamd_simpleCommand w c cmd
        in (tr, map_outcome (\<lambda>p. (p, err)) (recv ch)))
     = fst (Clamd_simpleCommand w c cmd)"
  by (cases "Clamd_simpleCommand w c cmd") simp

lemma first_of_reply_result:
  "snd (Clamd_simpleCommand w c cmd) = (Some ps, e) \<Longrightarrow>
   snd (let (tr, ch, err) = Clamd_simpleCommand w c cmd
        in (tr, map_outcome (\<lambda>p. (p, err)) (recv ch)))
     = Return (case ps of [] \<Rightarrow> None | p # qs \<Rightarrow> p, e)"
  by (cases "Clamd_simpleCommand w c cmd") (simp add: recv_def split: list.splits)

text \<open>The loop of \<^verbatim>\<open>Stats\<close> reads the records in order: what it does on a sequence is what
  it does on the rest once it has run through a first part.\<close>

lemma Stats_range_append:
  "Stats_range st (pre @ rest) =
     (case Stats_range st pre of
        Return (Some st', None) \<Rightarrow> Stats_range st' rest
      | out \<Rightarrow> out)"
proof (induction st pre rule: Stats_range.induct)
  case (1 stats)
  then show ?case by simp
next
  case (2 stats ps)
  then show ?case by simp
next
  case (3 stats s ps)
  then show ?case by (simp del: Stats.simps)
qed

lemma Stats_of_channel:
  "snd (Clamd_simpleCommand w c ''STATS'') = (Some ps, None) \<Longrightarrow>
   snd (Clamd_Stats w c) =
     Stats_range \<lparr>Pools = [], State = [], Threads = [], Memstats = [], Queue = []\<rparr> ps"
  by (cases "Clamd_simpleCommand w c ''STATS''") (simp add: Clamd_Stats_def)

lemma uploadLoop_chunks:
  "e \<in> set (fst (uploadLoop cs conn r k)) \<Longrightarrow>
   \<exists>d. e = SendChunk d \<and> 0 < length d \<and> d \<in> fst ` set r"
proof (induction cs conn r k rule: uploadLoop.induct)
  case (1 cs conn k)
  then show ?case by simp
next
  case (2 cs conn data rerr r k)
  then show ?case
    by (auto split: if_splits prod.splits)
qed

text \<open>The loop exits as soon as a read reports an error without data, provided no read
  overruns the buffer before; it also exits when a write fails.\<close>

lemma uploadLoop_exits:
  assumes "([], Some e) \<in> set r" and "\<forall>x \<in> set r. length (fst x) \<le> cs"
  shows "snd (uploadLoop cs conn r k) = Return ()"
  using assms
proof (induction cs conn r k rule: uploadLoop.induct)
  case (1 cs conn k)
  then show ?case by simp
next
  case (2 cs conn data rerr r k)
  then show ?case
    by (auto split: prod.splits)
qed

lemma uploadLoop_parses: "parsesOf (fst (uploadLoop cs conn r k)) = []"
  by (induction cs conn r k rule: uploadLoop.induct) (auto split: prod.splits)

lemma dropWhile_at_EOF:
  "SendEOF \<notin> set A \<Longrightarrow> dropWhile (\<lambda>e. e \<noteq> SendEOF) (A @ SendEOF # B) = SendEOF # B"
  by (induction A) auto

lemma dropWhile_no_EOF:
  "SendEOF \<notin> set A \<Longrightarrow> dropWhile (\<lambda>e. e \<noteq> SendEOF) A = []"
  by (induction A) auto

lemma count_none: "SendEOF \<notin> set A \<Longrightarrow> count_list A SendEOF = 0"
  by (induction A) auto

text \<open>The events of \<^verbatim>\<open>ScanStream\<close>: a part without terminator in which every chunk is a
  non-empty result of a read, then possibly the terminator and what follows it.\<close>

lemma ScanStream_events:
  "\<exists>A B. SendEOF \<notin> set A
     \<and> (\<forall>d. SendChunk d \<in> set A \<longrightarrow> 0 < length d \<and> d \<in> fst ` set r)
     \<and> (\<forall>d. SendChunk d \<notin> set B) \<and> SendEOF \<notin> set B
     \<and> (fst (Clamd_ScanStream w c r) = A \<or> fst (Clamd_ScanStream w c r) = A @ SendEOF # B)
     \<and> (\<forall>conn. snd (Clamd_newConnection w c) = Inr conn \<longrightarrow>
           sendCommand conn ''INSTREAM'' = None \<longrightarrow>
           snd (uploadLoop (CHUNK_SIZE w) conn r 0) = Return () \<longrightarrow>
           fst (Clamd_ScanStream w c r) = A @ SendEOF # B)"
proof (cases "Clamd_newConnection w c")
  case (Pair tr res)
  have tr: "SendEOF \<notin> set tr" "\<And>d. SendChunk d \<notin> set tr"
    using newConnection_events(4) [of _ w c] newConnection_events(3) [of w c] Pair by simp_all
  show ?thesis
  proof (cases res)
    case (Inl err)
    with Pair tr show ?thesis
      by (intro exI [of _ tr] exI [of _ "[]"]) (simp add: Clamd_ScanStream_def)
  next
    case (Inr conn)
    show ?thesis
    proof (cases "sendCommand conn ''INSTREAM''")
      case (Some err)
      with Pair Inr tr show ?thesis
        by (intro exI [of _ "tr @ [GoAbortWatcher, SendCommand ''INSTREAM'']"] exI [of _ "[]"])
          (simp add: Clamd_ScanStream_def)
    next
      case None
      obtain up out where up: "uploadLoop (CHUNK_SIZE w) conn r 0 = (up, out)"
        by (cases "uploadLoop (CHUNK_SIZE w) conn r 0")
      have upc: "\<And>e. e \<in> set up \<Longrightarrow> \<exists>d. e = SendChunk d \<and> 0 < length d \<and> d \<in> fst ` set r"
        using uploadLoop_chunks [of _ "CHUNK_SIZE w" conn r 0] up by simp
      let ?A = "tr @ [GoAbortWatcher, SendCommand ''INSTREAM''] @ up"
      have A1: "SendEOF \<notin> set ?A" using tr upc by auto
      have A2: "\<forall>d. SendChunk d \<in> set ?A \<longrightarrow> 0 < length d \<and> d \<in> fst ` set r"
        using tr upc by auto
      show ?thesis
      proof (cases out)
        case (Return u)
        show ?thesis
        proof (cases "sendEOF conn")
          case None' : None
          from A1 A2 show ?thesis
            by (intro exI [of _ ?A] exI [of _ "[ReadResponse, GoWaitClose]"])
              (simp add: Clamd_ScanStream_def Pair Inr None up Return None')
        next
          case (Some err)
          from A1 A2 show ?thesis
            by (intro exI [of _ ?A] exI [of _ "[]"])
              (simp add: Clamd_ScanStream_def Pair Inr None up Return Some)
        qed
      next
        case (Panic p)
        from A1 A2 show ?thesis
          by (intro exI [of _ ?A] exI [of _ "[]"])
            (simp add: Clamd_ScanStream_def Pair Inr None up Panic)
      next
        case Hang
        from A1 A2 show ?thesis
          by (intro exI [of _ ?A] exI [of _ "[]"])
            (simp add: Clamd_ScanStream_def Pair Inr None up Hang)
      qed
    qed
  qed
qed

lemma daemon_newConnection:
  "Clamd_newConnection (daemon raws) (NewClamd ''/run/clamd.sock'') =
     ([UrlParse ''/run/clamd.sock'', DialUnix ''/run/clamd.sock''], Inr (replying raws))"
  by (simp add: Clamd_newConnection_def NewClamd_def daemon_def sample_Parse_def)

lemma sample_upload:
  "uploadLoop 1024 (replying raws) sample_Reader 0 = ([SendChunk [1, 2, 3], SendChunk [4]], Return ())"
  by (simp add: sample_Reader_def replying_def)

lemma ScanStream_parses: "parsesOf (fst (Clamd_ScanStream w c r)) = [address c]"
proof (cases "Clamd_newConnection w c")
  case (Pair tr res)
  with newConnection_events(2) [of w c] have tr: "parsesOf tr = [address c]" by simp
  show ?thesis
  proof (cases res)
    case (Inl err)
    with Pair tr show ?thesis by (simp add: Clamd_ScanStream_def)
  next
    case (Inr conn)
    obtain up out where up: "uploadLoop (CHUNK_SIZE w) conn r 0 = (up, out)"
      by (cases "uploadLoop (CHUNK_SIZE w) conn r 0")
    with uploadLoop_parses [of "CHUNK_SIZE w" conn r 0] have "parsesOf up = []" by simp
    with Pair Inr tr up show ?thesis
      by (simp add: Clamd_ScanStream_def parsesOf_append split: option.splits outcome.splits)
  qed
qed

lemma reply_ops_events:
  "fst (Clamd_Ping w c) = fst (Clamd_simpleCommand w c ''PING'')"
  "fst (Clamd_Reload w c) = fst (Clamd_simpleCommand w c ''RELOAD'')"
  "fst (Clamd_Shutdown w c) = fst (Clamd_simpleCommand w c ''SHUTDOWN'')"
  "fst (Clamd_Stats w c) = fst (Clamd_simpleCommand w c ''STATS'')"
  "fst (Clamd_Version w c) = fst (Clamd_simpleCommand w c ''VERSION'')"
proof -
  show "fst (Clamd_Version w c) = fst (Clamd_simpleCommand w c ''VERSION'')"
    by (cases "Clamd_simpleCommand w c ''VERSION''") (simp add: Clamd_Version_def)
  show "fst (Clamd_Ping w c) = fst (Clamd_simpleCommand w c ''PING'')"
    by (cases "Clamd_simpleCommand w c ''PING''") (simp add: Clamd_Ping_def)
  show "fst (Clamd_Reload w c) = fst (Clamd_simpleCommand w c ''RELOAD'')"
    by (cases "Clamd_simpleCommand w c ''RELOAD''") (simp add: Clamd_Reload_def)
  show "fst (Clamd_Shutdown w c) = fst (Clamd_simpleCommand w c ''SHUTDOWN'')"
    by (cases "Clamd_simpleCommand w c ''SHUTDOWN''") (simp add: Clamd_Shutdown_def)
  show "fst (Clamd_Stats w c) = fst (Clamd_simpleCommand w c ''STATS'')"
    by (cases "Clamd_simpleCommand w c ''STATS''") (simp add: Clamd_Stats_def)
qed

lemma scan_command:
  assumes "snd (Clamd_newConnection w c) = Inr conn"
  shows "commandsSent (fst (let (tr, ch, err) = Clamd_simpleCommand w c cmd
                            in (tr, map_outcome (\<lambda>p. (p, err)) (recv ch)))) = [cmd]
    \<and> (\<forall>ps e. sendCommand conn cmd = None \<longrightarrow> readResponse conn = (Some ps, e) \<longrightarrow>
          snd (let (tr, ch, err) = Clamd_simpleCommand w c cmd
               in (tr, map_outcome (\<lambda>p. (p, err)) (recv ch)))
            = Return (case ps of [] \<Rightarrow> None | p # qs \<Rightarrow> p, e))"
proof (intro conjI allI impI)
  show "commandsSent (fst (let (tr, ch, err) = Clamd_simpleCommand w c cmd
                            in (tr, map_outcome (\<lambda>p. (p, err)) (recv ch)))) = [cmd]"
    using assms by (simp only: first_of_reply_events simpleCommand_commands) simp
next
  fix ps e
  assume "sendCommand conn cmd = None" and "readResponse conn = (Some ps, e)"
  with simpleCommand_reply [OF assms, of cmd]
  have "snd (Clamd_simpleCommand w c cmd) = (Some ps, e)" by simp
  then show "snd (let (tr, ch, err) = Clamd_simpleCommand w c cmd
               in (tr, map_outcome (\<lambda>p. (p, err)) (recv ch)))
            = Return (case ps of [] \<Rightarrow> None | p # qs \<Rightarrow> p, e)"
    by (rule first_of_reply_result)
qed

subsection \<open>Choice of the transport\<close>

text \<open>
  Claim C1. For every address string given to the client: when \<^verbatim>\<open>url.Parse\<close> yields a URL
  with scheme \<^verbatim>\<open>tcp\<close>, \<^verbatim>\<open>newConnection\<close> dials TCP to the URL's host (host:port) and returns
  what the dialler returns; with scheme \<^verbatim>\<open>unix\<close> it dials the local socket at the URL's
  path; with any other scheme, or none as for a bare string, it dials the local socket
  at the whole address string; and when parsing fails it returns that error, the only
  event being the parse itself, so no connection has been attempted.
\<close>

theorem newConnection_by_scheme:
  "(\<forall>u. url_Parse w a = Inr u \<longrightarrow> Scheme u = ''tcp'' \<longrightarrow>
        Clamd_newConnection w (NewClamd a)
          = ([UrlParse a, DialTcp (Host u)], newCLAMDTcpConn w (Host u)))
   \<and> (\<forall>u. url_Parse w a = Inr u \<longrightarrow> Scheme u = ''unix'' \<longrightarrow>
        Clamd_newConnection w (NewClamd a)
          = ([UrlParse a, DialUnix (UrlPath u)], newCLAMDUnixConn w (UrlPath u)))
   \<and> (\<forall>u. url_Parse w a = Inr u \<longrightarrow> Scheme u \<noteq> ''tcp'' \<longrightarrow> Scheme u \<noteq> ''unix'' \<longrightarrow>
        Clamd_newConnection w (NewClamd a)
          = ([UrlParse a, DialUnix a], newCLAMDUnixConn w a))
   \<and> (\<forall>err. url_Parse w a = Inl err \<longrightarrow>
        Clamd_newConnection w (NewClamd a) = ([UrlParse a], Inl err))"
  by (simp add: Clamd_newConnection_def NewClamd_def)

theorem newConnection_by_scheme_witness:
  "Clamd_newConnection (daemon []) (NewClamd ''tcp://127.0.0.1:3310'')
     = ([UrlParse ''tcp://127.0.0.1:3310'', DialTcp ''127.0.0.1:3310''], Inr (replying []))
   \<and> Clamd_newConnection (daemon []) (NewClamd ''unix:///run/clamd.sock'')
     = ([UrlParse ''unix:///run/clamd.sock'', DialUnix ''/run/clamd.sock''], Inr (replying []))
   \<and> Clamd_newConnection (daemon []) (NewClamd ''/run/clamd.sock'')
     = ([UrlParse ''/run/clamd.sock'', DialUnix ''/run/clamd.sock''], Inr (replying []))
   \<and> Clamd_newConnection (daemon []) (NewClamd '':3310'')
     = ([UrlParse '':3310''], Inl (Error ''missing protocol scheme''))"
proof -
  have tcp: "url_Parse (daemon []) ''tcp://127.0.0.1:3310''
      = Inr \<lparr>Scheme = ''tcp'', Host = ''127.0.0.1:3310'', UrlPath = []\<rparr>"
    by (simp add: daemon_def sample_Parse_def)
  have unix: "url_Parse (daemon []) ''unix:///run/clamd.sock''
      = Inr \<lparr>Scheme = ''unix'', Host = [], UrlPath = ''/run/clamd.sock''\<rparr>"
    by (simp add: daemon_def sample_Parse_def)
  have bare: "url_Parse (daemon []) ''/run/clamd.sock''
      = Inr \<lparr>Scheme = [], Host = [], UrlPath = ''/run/clamd.sock''\<rparr>"
    by (simp add: daemon_def sample_Parse_def)
  have bad: "url_Parse (daemon []) '':3310'' = Inl (Error ''missing protocol scheme'')"
    by (simp add: daemon_def sample_Parse_def)
  show ?thesis
    using newConnection_by_scheme [of "daemon []" "''tcp://127.0.0.1:3310''"]
      newConnection_by_scheme [of "daemon []" "''unix:///run/clamd.sock''"]
      newConnection_by_scheme [of "daemon []" "''/run/clamd.sock''"]
      newConnection_by_scheme [of "daemon []" "'':3310''"]
      tcp unix bare bad
    by (simp add: daemon_def)
qed

subsection \<open>Stats\<close>

text \<open>
  Claim C2. When the reply to \<^verbatim>\<open>STATS\<close> is the record sequence with the raw texts
  \<^verbatim>\<open>POOLS: 1\<close>, \<^verbatim>\<open>STATE: VALID\<close>, \<^verbatim>\<open>THREADS: live 1 idle 0 max 10\<close>, \<^verbatim>\<open>QUEUE: 0\<close>,
  \<^verbatim>\<open>MEMSTATS: heap 1M\<close>, \<^verbatim>\<open>END\<close>, \<^verbatim>\<open>Stats\<close> returns, with a nil error, a value whose \<^verbatim>\<open>Pools\<close>
  is \<^verbatim>\<open>1\<close> (the text after the first six bytes, trimmed of spaces) and whose \<^verbatim>\<open>State\<close>,
  \<^verbatim>\<open>Threads\<close>, \<^verbatim>\<open>Queue\<close> and \<^verbatim>\<open>Memstats\<close> are the raw texts of the matching records.
\<close>

theorem Stats_example_reply:
  assumes reply: "snd (Clamd_simpleCommand w c ''STATS'') = (Some (map Some rs), None)"
    and raws: "map Raw rs = [''POOLS: 1'', ''STATE: VALID'', ''THREADS: live 1 idle 0 max 10'',
                 ''QUEUE: 0'', ''MEMSTATS: heap 1M'', ''END'']"
  shows "snd (Clamd_Stats w c) =
     Return (Some \<lparr>Pools = ''1'', State = ''STATE: VALID'',
                   Threads = ''THREADS: live 1 idle 0 max 10'',
                   Memstats = ''MEMSTATS: heap 1M'', Queue = ''QUEUE: 0''\<rparr>, None)"
proof -
  from raws obtain r1 r2 r3 r4 r5 r6 where rs: "rs = [r1, r2, r3, r4, r5, r6]"
    and r: "Raw r1 = ''POOLS: 1''" "Raw r2 = ''STATE: VALID''"
      "Raw r3 = ''THREADS: live 1 idle 0 max 10''" "Raw r4 = ''QUEUE: 0''"
      "Raw r5 = ''MEMSTATS: heap 1M''" "Raw r6 = ''END''"
    by (auto simp: map_eq_Cons_conv)
  have "Stats_range \<lparr>Pools = [], State = [], Threads = [], Memstats = [], Queue = []\<rparr>
          (map Some rs) =
        Return (Some \<lparr>Pools = ''1'', State = ''STATE: VALID'',
                   Threads = ''THREADS: live 1 idle 0 max 10'',
                   Memstats = ''MEMSTATS: heap 1M'', Queue = ''QUEUE: 0''\<rparr>, None)"
    by (simp add: rs r strings_HasPrefix_def strings_Trim_def)
  with Stats_of_channel [OF reply] show ?thesis by simp
qed

theorem Stats_example_reply_witness:
  "snd (Clamd_Stats (daemon [''POOLS: 1'', ''STATE: VALID'', ''THREADS: live 1 idle 0 max 10'',
                 ''QUEUE: 0'', ''MEMSTATS: heap 1M'', ''END'']) (NewClamd ''/run/clamd.sock'')) =
     Return (Some \<lparr>Pools = ''1'', State = ''STATE: VALID'',
                   Threads = ''THREADS: live 1 idle 0 max 10'',
                   Memstats = ''MEMSTATS: heap 1M'', Queue = ''QUEUE: 0''\<rparr>, None)"
  using Stats_example_reply [of "daemon [''POOLS: 1'', ''STATE: VALID'',
        ''THREADS: live 1 idle 0 max 10'', ''QUEUE: 0'', ''MEMSTATS: heap 1M'', ''END'']"
      "NewClamd ''/run/clamd.sock''"
      "map record_of [''POOLS: 1'', ''STATE: VALID'',
        ''THREADS: live 1 idle 0 max 10'', ''QUEUE: 0'', ''MEMSTATS: heap 1M'', ''END'']"]
  by (simp add: daemon_simpleCommand record_of_def)

text \<open>
  Claim C3. The claim asks that every reply containing a record with none of the known
  prefixes makes \<^verbatim>\<open>Stats\<close> fail with an error. On the reply \<^verbatim>\<open>POOLS\<close>, \<^verbatim>\<open>BOGUS: x\<close> the loop
  takes \<^verbatim>\<open>s.Raw[6:]\<close> of the five-byte first record and panics with slice bounds out of
  range before it looks at the second record: no error is returned.
\<close>

theorem Stats_bare_POOLS_then_unknown:
  "snd (Clamd_Stats (daemon [''POOLS'', ''BOGUS: x'']) (NewClamd ''/run/clamd.sock''))
     = Panic (SliceBounds 6 5)"
  by (simp add: Clamd_Stats_def daemon_simpleCommand record_of_def strings_HasPrefix_def)

text \<open>What the loop does with the end marker and with a record of unknown prefix, once
  it has run through the records before it: the marker changes nothing, and the unknown
  record ends the call with an error whose message contains the raw text.\<close>

lemma Stats_END_ignored:
  "Raw s = ''END'' \<Longrightarrow> Stats_range st (Some s # ps) = Stats_range st ps"
  by (simp add: strings_HasPrefix_def)

lemma Stats_unknown_record:
  assumes "Stats_range st0 pre = Return (Some st, None)"
    and "\<not> strings_HasPrefix (Raw s) ''POOLS''" "\<not> strings_HasPrefix (Raw s) ''STATE''"
      "\<not> strings_HasPrefix (Raw s) ''THREADS''" "\<not> strings_HasPrefix (Raw s) ''QUEUE''"
      "\<not> strings_HasPrefix (Raw s) ''MEMSTATS''" "\<not> strings_HasPrefix (Raw s) ''END''"
  shows "Stats_range st0 (pre @ Some s # post)
     = Return (None, Some (Error (''Unknown response, got '' @ fmt_v s @ ''.'')))"
  using assms by (simp add: Stats_range_append errors_New_def)

lemma fmt_v_contains_Raw: "\<exists>a b. fmt_v s = a @ Raw s @ b"
  unfolding fmt_v_def by (intro exI [of _ "''&{''"] exI) simp

text \<open>
  Claim C10. When the loop of \<^verbatim>\<open>Stats\<close> reaches a record whose raw text is exactly \<^verbatim>\<open>POOLS\<close>
  (it has run through the records before it without returning), the call panics with
  slice bounds out of range, index 6 on a string of length 5, whatever follows; it
  returns neither a value nor an error.
\<close>

theorem Stats_POOLS_panics:
  assumes reply: "snd (Clamd_simpleCommand w c ''STATS'') = (Some (pre @ Some s # post), None)"
    and reached:
      "Stats_range \<lparr>Pools = [], State = [], Threads = [], Memstats = [], Queue = []\<rparr> pre
        = Return (Some st, None)"
    and raw: "Raw s = ''POOLS''"
  shows "snd (Clamd_Stats w c) = Panic (SliceBounds 6 5)"
  using Stats_of_channel [OF reply] reached raw
  by (simp add: Stats_range_append strings_HasPrefix_def)

theorem Stats_POOLS_panics_witness:
  "snd (Clamd_Stats (daemon [''STATE: VALID'', ''POOLS'', ''END'']) (NewClamd ''/run/clamd.sock''))
     = Panic (SliceBounds 6 5)
   \<and> snd (Clamd_Stats (daemon [''POOLS'']) (NewClamd ''/run/clamd.sock''))
     = Panic (SliceBounds 6 5)"
proof -
  let ?z = "\<lparr>Pools = [], State = [], Threads = [], Memstats = [], Queue = []\<rparr>"
  have a: "snd (Clamd_simpleCommand (daemon [''STATE: VALID'', ''POOLS'', ''END''])
             (NewClamd ''/run/clamd.sock'') ''STATS'')
           = (Some ([Some (record_of ''STATE: VALID'')] @ Some (record_of ''POOLS'')
                # [Some (record_of ''END'')]), None)"
    by (simp add: daemon_simpleCommand)
  have b: "Stats_range ?z [Some (record_of ''STATE: VALID'')]
           = Return (Some (?z\<lparr>State := ''STATE: VALID''\<rparr>), None)"
    by (simp add: record_of_def strings_HasPrefix_def)
  have c: "snd (Clamd_simpleCommand (daemon [''POOLS''])
             (NewClamd ''/run/clamd.sock'') ''STATS'')
           = (Some ([] @ Some (record_of ''POOLS'') # []), None)"
    by (simp add: daemon_simpleCommand)
  have d: "Stats_range ?z [] = Return (Some ?z, None)"
    by simp
  have e: "Raw (record_of ''POOLS'') = ''POOLS''"
    by (simp add: record_of_def)
  show ?thesis
    using Stats_POOLS_panics [OF a b e] Stats_POOLS_panics [OF c d e] by simp
qed

subsection \<open>Ping\<close>

text \<open>
  Claim C4. The claim asks for an error, never a panic, when the reply is empty. When
  the connection opens, the command is sent and the response channel is closed without
  a record, the receive in \<^verbatim>\<open>Ping\<close> yields a nil pointer and reading its field \<^verbatim>\<open>Raw\<close>
  panics.
\<close>

theorem Ping_closed_channel:
  "snd (Clamd_Ping (daemon []) (NewClamd ''/run/clamd.sock'')) = Panic NilDereference"
  by (simp add: Clamd_Ping_def daemon_simpleCommand recv_def)

text \<open>On a reply that delivers a record, \<^verbatim>\<open>Ping\<close> succeeds exactly for \<^verbatim>\<open>PONG\<close> and returns
  an error otherwise.\<close>

lemma Ping_on_record:
  assumes "snd (Clamd_simpleCommand w c ''PING'') = (Some (Some s # ps), None)"
  shows "snd (Clamd_Ping w c) =
     (if Raw s = ''PONG'' then Return None
      else Return (Some (Error (''Invalid response, got '' @ fmt_v s @ ''.''))))"
  using assms
  by (cases "Clamd_simpleCommand w c ''PING''")
    (simp add: Clamd_Ping_def recv_def errors_New_def)

subsection \<open>File scans\<close>

text \<open>
  Claim C5. For every path, once the connection is open, each of \<^verbatim>\<open>ScanFile\<close>,
  \<^verbatim>\<open>RawScanFile\<close>, \<^verbatim>\<open>MultiScanFile\<close>, \<^verbatim>\<open>ContScanFile\<close> and \<^verbatim>\<open>AllMatchScanFile\<close> hands to
  \<^verbatim>\<open>sendCommand\<close> exactly one command, the variant word, one space and the path as given
  (\<^verbatim>\<open>SCAN\<close>, \<^verbatim>\<open>RAWSCAN\<close>, \<^verbatim>\<open>MULTISCAN\<close>, \<^verbatim>\<open>CONTSCAN\<close>, \<^verbatim>\<open>ALLMATCHSCAN\<close>); and when the command
  is accepted and the response channel delivers the sequence \<open>ps\<close>, the operation returns
  the first element of \<open>ps\<close> (nil when \<open>ps\<close> is empty) together with the error of
  \<^verbatim>\<open>readResponse\<close>.
\<close>

theorem scan_file_commands:
  assumes "snd (Clamd_newConnection w c) = Inr conn"
  shows
   "(commandsSent (fst (Clamd_ScanFile w c path)) = [''SCAN '' @ path]
     \<and> (\<forall>ps err. sendCommand conn (''SCAN '' @ path) = None \<longrightarrow>
           readResponse conn = (Some ps, err) \<longrightarrow>
           snd (Clamd_ScanFile w c path)
             = Return (case ps of [] \<Rightarrow> None | p # qs \<Rightarrow> p, err)))
  \<and> (commandsSent (fst (Clamd_RawScanFile w c path)) = [''RAWSCAN '' @ path]
     \<and> (\<forall>ps err. sendCommand conn (''RAWSCAN '' @ path) = None \<longrightarrow>
           readResponse conn = (Some ps, err) \<longrightarrow>
           snd (Clamd_RawScanFile w c path)
             = Return (case ps of [] \<Rightarrow> None | p # qs \<Rightarrow> p, err)))
  \<and> (commandsSent (fst (Clamd_MultiScanFile w c path)) = [''MULTISCAN '' @ path]
     \<and> (\<forall>ps err. sendCommand conn (''MULTISCAN '' @ path) = None \<longrightarrow>
           readResponse conn = (Some ps, err) \<longrightarrow>
           snd (Clamd_MultiScanFile w c path)
             = Return (case ps of [] \<Rightarrow> None | p # qs \<Rightarrow> p, err)))
  \<and> (commandsSent (fst (Clamd_ContScanFile w c path)) = [''CONTSCAN '' @ path]
     \<and> (\<forall>ps err. sendCommand conn (''CONTSCAN '' @ path) = None \<longrightarrow>
           readResponse conn = (Some ps, err) \<longrightarrow>
           snd (Clamd_ContScanFile w c path)
             = Return (case ps of [] \<Rightarrow> None | p # qs \<Rightarrow> p, err)))
  \<and> (commandsSent (fst (Clamd_AllMatchScanFile w c path)) = [''ALLMATCHSCAN '' @ path]
     \<and> (\<forall>ps err. sendCommand conn (''ALLMATCHSCAN '' @ path) = None \<longrightarrow>
           readResponse conn = (Some ps, err) \<longrightarrow>
           snd (Clamd_AllMatchScanFile w c path)
             = Return (case ps of [] \<Rightarrow> None | p # qs \<Rightarrow> p, err)))"
  unfolding Clamd_ScanFile_def Clamd_RawScanFile_def Clamd_MultiScanFile_def
    Clamd_ContScanFile_def Clamd_AllMatchScanFile_def Let_def [of "_ @ path"]
  by (intro conjI scan_command [OF assms, THEN conjunct1] scan_command [OF assms, THEN conjunct2])

theorem scan_file_commands_witness:
  "commandsSent (fst (Clamd_ScanFile (daemon [''/tmp/eicar: Win.Test.EICAR_HDB-1 FOUND''])
       (NewClamd ''/run/clamd.sock'') ''/tmp/eicar'')) = [''SCAN /tmp/eicar'']
   \<and> snd (Clamd_ScanFile (daemon [''/tmp/eicar: Win.Test.EICAR_HDB-1 FOUND''])
       (NewClamd ''/run/clamd.sock'') ''/tmp/eicar'')
     = Return (Some (record_of ''/tmp/eicar: Win.Test.EICAR_HDB-1 FOUND''), None)
   \<and> commandsSent (fst (Clamd_AllMatchScanFile (daemon [''/tmp/eicar: Win.Test.EICAR_HDB-1 FOUND''])
       (NewClamd ''/run/clamd.sock'') ''/tmp/eicar'')) = [''ALLMATCHSCAN /tmp/eicar'']
   \<and> snd (Clamd_AllMatchScanFile (daemon [''/tmp/eicar: Win.Test.EICAR_HDB-1 FOUND''])
       (NewClamd ''/run/clamd.sock'') ''/tmp/eicar'')
     = Return (Some (record_of ''/tmp/eicar: Win.Test.EICAR_HDB-1 FOUND''), None)"
proof -
  let ?raws = "[''/tmp/eicar: Win.Test.EICAR_HDB-1 FOUND'']"
  have conn: "snd (Clamd_newConnection (daemon ?raws) (NewClamd ''/run/clamd.sock''))
      = Inr (replying ?raws)"
    by (simp add: daemon_newConnection)
  have sent: "\<And>cmd. sendCommand (replying ?raws) cmd = None"
    by (simp add: replying_def)
  have resp: "readResponse (replying ?raws)
      = (Some [Some (record_of ''/tmp/eicar: Win.Test.EICAR_HDB-1 FOUND'')], None)"
    by (simp add: replying_def)
  from scan_file_commands [OF conn, of "''/tmp/eicar''"] sent resp
  show ?thesis by simp
qed

text \<open>When no connection can be opened, nothing is sent; \<^verbatim>\<open>simpleCommand\<close> returns a nil
  channel, and the receive in \<^verbatim>\<open>return <-ch, err\<close> does not return.\<close>

lemma scan_without_connection:
  assumes "snd (Clamd_newConnection w c) = Inl e"
  shows "commandsSent (fst (Clamd_ScanFile w c path)) = []"
    and "snd (Clamd_ScanFile w c path) = Hang"
proof -
  obtain tr where "Clamd_newConnection w c = (tr, Inl e)"
    using assms by (cases "Clamd_newConnection w c") simp
  then have sc: "Clamd_simpleCommand w c (''SCAN '' @ path) = (tr, None, Some e)"
    by (simp add: Clamd_simpleCommand_def)
  show "commandsSent (fst (Clamd_ScanFile w c path)) = []"
    unfolding Clamd_ScanFile_def Let_def [of "_ @ path"]
    using assms by (simp only: first_of_reply_events simpleCommand_commands) simp
  show "snd (Clamd_ScanFile w c path) = Hang"
    using sc by (simp add: Clamd_ScanFile_def recv_def)
qed

subsection \<open>The upload of ScanStream\<close>

text \<open>
  Claim C6. In every run of \<^verbatim>\<open>ScanStream\<close>, each chunk handed to \<^verbatim>\<open>sendChunk\<close> has a length
  greater than zero and is the data of one of the reads; no chunk is sent at or after
  the call of \<^verbatim>\<open>sendEOF\<close>; \<^verbatim>\<open>sendEOF\<close> is called at most once; and it is called exactly
  once whenever the upload loop was entered (connection open, \<^verbatim>\<open>INSTREAM\<close> accepted) and
  has exited.
\<close>

theorem ScanStream_chunks_nonempty:
  "(\<forall>d. SendChunk d \<in> set (fst (Clamd_ScanStream w c r)) \<longrightarrow> 0 < length d \<and> d \<in> fst ` set r)
   \<and> (\<forall>d. SendChunk d \<notin> set (dropWhile (\<lambda>e. e \<noteq> SendEOF) (fst (Clamd_ScanStream w c r))))
   \<and> count_list (fst (Clamd_ScanStream w c r)) SendEOF \<le> 1
   \<and> (\<forall>conn. snd (Clamd_newConnection w c) = Inr conn \<longrightarrow>
         sendCommand conn ''INSTREAM'' = None \<longrightarrow>
         snd (uploadLoop (CHUNK_SIZE w) conn r 0) = Return () \<longrightarrow>
         count_list (fst (Clamd_ScanStream w c r)) SendEOF = 1)"
proof -
  obtain A B where A: "SendEOF \<notin> set A"
      "\<forall>d. SendChunk d \<in> set A \<longrightarrow> 0 < length d \<and> d \<in> fst ` set r"
    and B: "\<forall>d. SendChunk d \<notin> set B" "SendEOF \<notin> set B"
    and shape: "fst (Clamd_ScanStream w c r) = A \<or> fst (Clamd_ScanStream w c r) = A @ SendEOF # B"
    and exit: "\<forall>conn. snd (Clamd_newConnection w c) = Inr conn \<longrightarrow>
           sendCommand conn ''INSTREAM'' = None \<longrightarrow>
           snd (uploadLoop (CHUNK_SIZE w) conn r 0) = Return () \<longrightarrow>
           fst (Clamd_ScanStream w c r) = A @ SendEOF # B"
    using ScanStream_events [of r w c] by blast
  have c0: "count_list A SendEOF = 0" "count_list B SendEOF = 0"
    using A(1) B(2) by (simp_all add: count_none)
  from shape show ?thesis
  proof
    assume eq: "fst (Clamd_ScanStream w c r) = A"
    have "A \<noteq> A @ SendEOF # B" by simp
    with eq exit A c0 show ?thesis
      by (simp add: dropWhile_no_EOF)
  next
    assume eq: "fst (Clamd_ScanStream w c r) = A @ SendEOF # B"
    with A B c0 show ?thesis
      by (simp add: dropWhile_at_EOF)
  qed
qed

theorem ScanStream_chunks_nonempty_witness:
  "fst (Clamd_ScanStream (daemon [''stream: OK'']) (NewClamd ''/run/clamd.sock'') sample_Reader)
     = [UrlParse ''/run/clamd.sock'', DialUnix ''/run/clamd.sock'', GoAbortWatcher,
        SendCommand ''INSTREAM'', SendChunk [1, 2, 3], SendChunk [4], SendEOF, ReadResponse,
        GoWaitClose]
   \<and> 0 < length [1, 2, 3 :: byte] \<and> [1, 2, 3] \<in> fst ` set sample_Reader
   \<and> count_list (fst (Clamd_ScanStream (daemon [''stream: OK'']) (NewClamd ''/run/clamd.sock'')
         sample_Reader)) SendEOF = 1"
proof -
  let ?w = "daemon [''stream: OK'']" and ?c = "NewClamd ''/run/clamd.sock''"
  have tr: "fst (Clamd_ScanStream ?w ?c sample_Reader)
     = [UrlParse ''/run/clamd.sock'', DialUnix ''/run/clamd.sock'', GoAbortWatcher,
        SendCommand ''INSTREAM'', SendChunk [1, 2, 3], SendChunk [4], SendEOF, ReadResponse,
        GoWaitClose]"
    by (simp add: Clamd_ScanStream_def daemon_newConnection)
      (simp add: daemon_def replying_def sample_Reader_def)
  have conn: "snd (Clamd_newConnection ?w ?c) = Inr (replying [''stream: OK''])"
    by (simp add: daemon_newConnection)
  have cmd: "sendCommand (replying [''stream: OK'']) ''INSTREAM'' = None"
    by (simp add: replying_def)
  have up: "snd (uploadLoop (CHUNK_SIZE ?w) (replying [''stream: OK'']) sample_Reader 0) = Return ()"
    by (simp add: sample_upload daemon_def)
  have mem: "SendChunk [1, 2, 3] \<in> set (fst (Clamd_ScanStream ?w ?c sample_Reader))"
    by (simp add: tr)
  from ScanStream_chunks_nonempty [of ?w ?c sample_Reader] mem conn cmd up tr
  show ?thesis by blast
qed

subsection \<open>Where the address is parsed\<close>

text \<open>
  Claim C9, as stated, fails: \<^verbatim>\<open>NewClamd\<close> keeps the address string as it is, and the
  operations parse it. Two calls of \<^verbatim>\<open>Ping\<close> on one client parse the address twice.
\<close>

theorem address_parsed_by_operation:
  "NewClamd ''tcp://127.0.0.1:3310'' = \<lparr>address = ''tcp://127.0.0.1:3310''\<rparr>
   \<and> parsesOf (fst (Clamd_Ping (daemon [''PONG'']) (NewClamd ''tcp://127.0.0.1:3310''))
        @ fst (Clamd_Ping (daemon [''PONG'']) (NewClamd ''tcp://127.0.0.1:3310'')))
     = [''tcp://127.0.0.1:3310'', ''tcp://127.0.0.1:3310'']"
  by (simp add: Clamd_Ping_def Clamd_simpleCommand_def Clamd_newConnection_def NewClamd_def
      daemon_def sample_Parse_def replying_def)

text \<open>
  Claim C9, amended. \<^verbatim>\<open>NewClamd\<close> stores the address string as given, unparsed, and
  every public operation (\<^verbatim>\<open>Ping\<close>, \<^verbatim>\<open>Version\<close>, \<^verbatim>\<open>Stats\<close>, \<^verbatim>\<open>Reload\<close>, \<^verbatim>\<open>Shutdown\<close>, the five
  file scans, \<^verbatim>\<open>ScanStream\<close>) parses the stored string exactly once, each time it is
  called, when it opens its connection.
\<close>

theorem address_parsed_per_connection:
  "address (NewClamd a) = a
   \<and> parsesOf (fst (Clamd_Ping w c)) = [address c]
   \<and> parsesOf (fst (Clamd_Version w c)) = [address c]
   \<and> parsesOf (fst (Clamd_Stats w c)) = [address c]
   \<and> parsesOf (fst (Clamd_Reload w c)) = [address c]
   \<and> parsesOf (fst (Clamd_Shutdown w c)) = [address c]
   \<and> parsesOf (fst (Clamd_ScanFile w c path)) = [address c]
   \<and> parsesOf (fst (Clamd_RawScanFile w c path)) = [address c]
   \<and> parsesOf (fst (Clamd_MultiScanFile w c path)) = [address c]
   \<and> parsesOf (fst (Clamd_ContScanFile w c path)) = [address c]
   \<and> parsesOf (fst (Clamd_AllMatchScanFile w c path)) = [address c]
   \<and> parsesOf (fst (Clamd_ScanStream w c r)) = [address c]"
  unfolding Clamd_ScanFile_def Clamd_RawScanFile_def Clamd_MultiScanFile_def
    Clamd_ContScanFile_def Clamd_AllMatchScanFile_def Let_def [of "_ @ path"]
  by (simp only: first_of_reply_events reply_ops_events ScanStream_parses simpleCommand_parses)
    (simp add: NewClamd_def)

end
